theory Spec2Isabelle
  imports Main
begin

section \<open>Go library functions used by internal/cmd/vet.go\<close>

text \<open>Go strings are byte sequences; \<^typ>\<open>string\<close> is a list of 8-bit characters.\<close>

text \<open>\<open>strings.HasPrefix(s, prefix)\<close>.\<close>

fun HasPrefix :: "string \<Rightarrow> string \<Rightarrow> bool" where
  "HasPrefix s [] = True"
| "HasPrefix [] (p # ps) = False"
| "HasPrefix (c # cs) (p # ps) = (c = p \<and> HasPrefix cs ps)"

text \<open>\<open>strings.Contains(s, substr)\<close>: \<open>substr\<close> occurs at some offset of \<open>s\<close>.\<close>

fun Contains :: "string \<Rightarrow> string \<Rightarrow> bool" where
  "Contains [] substr = HasPrefix [] substr"
| "Contains (c # cs) substr = (HasPrefix (c # cs) substr \<or> Contains cs substr)"

text \<open>\<open>strings.TrimPrefix(s, prefix)\<close>: \<open>s\<close> without the leading \<open>prefix\<close>; \<open>s\<close> itself
  when it does not start with \<open>prefix\<close>.\<close>

definition TrimPrefix :: "string \<Rightarrow> string \<Rightarrow> string" where
  "TrimPrefix s p = (if HasPrefix s p then drop (length p) s else s)"

text \<open>The verb \<open>%d\<close> of \<open>fmt.Sprintf\<close>: decimal digits, with a sign for negative numbers.\<close>

definition digit :: "nat \<Rightarrow> char" where
  "digit n = ''0123456789'' ! n"

fun fmt_nat :: "nat \<Rightarrow> string" where
  "fmt_nat n = (if n < 10 then [digit n]
                else fmt_nat (n div 10) @ [digit (n mod 10)])"

declare fmt_nat.simps [simp del]

definition fmt_d :: "int \<Rightarrow> string" where
  "fmt_d i = (if i < 0 then CHR ''-'' # fmt_nat (nat (- i)) else fmt_nat (nat i))"

definition newline :: string where
  "newline = [CHR 0x0A]"

definition quote :: string where
  "quote = [CHR 0x27]"


section \<open>Data model\<close>

text \<open>\<open>config.Engine\<close> is a string type with three known constants; every other string is
  an unsupported engine.\<close>

datatype Engine = EnginePostgreSQL | EngineMySQL | EngineSQLite | EngineOther string

text \<open>The dynamic type of \<open>raw.Stmt\<close>, as far as \<open>prepareable\<close> distinguishes it.\<close>

datatype Stmt = DeleteStmt | InsertStmt | SelectStmt | UpdateStmt | OtherStmt string

text \<open>\<open>plugin.Parameter\<close> (the column metadata abridged to its name).\<close>

record Parameter =
  param_number :: int
  param_column :: string

text \<open>One query of the group: \<open>req.Queries[i]\<close> (a \<open>plugin.Query\<close>) together with the two
  fields of \<open>result.Queries[i]\<close> that \<open>checkSQL\<close> reads at the same index \<open>i\<close>.\<close>

record Query =
  query_text :: string
  query_name :: string
  query_cmd :: string
  query_params :: "Parameter list"
  query_filename :: string
  query_flags :: "string \<rightharpoonup> bool"
  query_raw_stmt :: Stmt

record VetParameter =
  vp_number :: int

record VetQuery =
  vq_sql :: string
  vq_name :: string
  vq_cmd :: string
  vq_params :: "VetParameter list"

record Settings =
  settings_version :: string
  settings_engine :: string
  settings_schema :: "string list"
  settings_queries :: "string list"

record VetConfig =
  vc_version :: string
  vc_engine :: string
  vc_schema :: "string list"
  vc_queries :: "string list"

text \<open>Explain output (pure data, abridged to the fields with structure).\<close>

datatype Plan = Plan (plan_node_type: string) (plan_relation_name: string) (plan_plans: "Plan list")

record PostgreSQLExplain =
  pg_plan :: "Plan option"
  pg_settings :: "(string \<times> string) list"

record QueryBlock =
  qb_select_id :: nat
  qb_message :: string
  qb_cost_info :: "(string \<times> string) list"

record MySQLExplain =
  my_query_block :: "QueryBlock option"

text \<open>\<open>plugin.PostgreSQL\<close> and \<open>plugin.MySQL\<close>: a wrapper around a pointer to the explain
  document.\<close>

datatype PostgreSQL = PostgreSQL (pg_explain: "PostgreSQLExplain option")

datatype MySQL = MySQL (my_explain: "MySQLExplain option")

text \<open>\<open>vetEngineOutput\<close>: two pointers, \<open>None\<close> for \<open>nil\<close>.\<close>

record vetEngineOutput =
  out_PostgreSQL :: "PostgreSQL option"
  out_MySQL :: "MySQL option"

text \<open>The evaluation environment \<open>evalMap\<close> is a \<open>map[string]any\<close>. A key can be present
  with a nil pointer as its value, which is what \<open>checkSQL\<close> stores for the engine that
  did not run.\<close>

datatype env_val =
    EQuery VetQuery
  | EConfig VetConfig
  | EPostgreSQL "PostgreSQL option"
  | EMySQL "MySQL option"

type_synonym evalMap = "string \<rightharpoonup> env_val"

text \<open>The value of a CEL evaluation, \<open>out.Value()\<close>. \<open>VOther\<close> carries the \<open>%v\<close> rendering
  of any value that is neither a bool, an int nor a string.\<close>

datatype cel_val = VBool bool | VInt int | VString string | VOther string

definition fmt_v :: "cel_val \<Rightarrow> string" where
  "fmt_v v = (case v of
      VBool b \<Rightarrow> (if b then ''true'' else ''false'')
    | VInt i \<Rightarrow> fmt_d i
    | VString s \<Rightarrow> s
    | VOther s \<Rightarrow> s)"

text \<open>A compiled \<open>cel.Program\<close>: \<open>Eval\<close> gives an error or a value.\<close>

type_synonym Program = "evalMap \<Rightarrow> string + cel_val"

record rule =
  Program :: "Program option"
  Message :: string
  NeedsPrepare :: bool
  NeedsExplain :: bool

text \<open>\<open>config.Rule\<close>, \<open>config.SQL\<close> (\<open>sql_database\<close> is the URI of \<open>s.Database\<close>, \<open>None\<close>
  when \<open>s.Database\<close> is nil) and \<open>config.Config\<close>.\<close>

record RuleConfig =
  rc_name :: string
  rc_rule :: string
  rc_msg :: string

record SQL =
  sql_engine :: Engine
  sql_schema :: "string list"
  sql_queries :: "string list"
  sql_database :: "string option"
  sql_rules :: "string list"

record Config =
  conf_rules :: "RuleConfig list"
  conf_sql :: "SQL list"

definition RuleDbPrepare :: string where
  "RuleDbPrepare = ''sqlc/db-prepare''"

definition QueryFlagSqlcVetDisable :: string where
  "QueryFlagSqlcVetDisable = ''@sqlc-vet-disable''"

text \<open>\<open>nil\<close>, \<open>ErrFailedChecks\<close>, any other error, or a runtime panic (which nothing in
  this file recovers).\<close>

datatype result = NoError | ErrFailedChecks | Error string | Panic string

text \<open>What a call returns: a value, an error, or a panic.\<close>

datatype 'a ret = Ret 'a | Err string | Panicked string


section \<open>The outside world\<close>

text \<open>Every call that leaves the process is recorded, in order. The arguments of a query
  row are \<open>any\<close> values: \<open>None\<close> is the nil interface value.\<close>

datatype event =
    PgxPrepare string string
  | DbPrepareContext string
  | StmtClose
  | PgxQueryRow string "Parameter option list"
  | DbQueryRowContext string "Parameter option list"
  | ProgramEval string string

text \<open>A prepared statement handle of \<open>database/sql\<close>.\<close>

datatype Stmt_handle = Stmt_handle nat

text \<open>The collaborators \<open>vet.go\<close> calls. A database may answer the same call differently
  over time, so each answer depends on the calls made so far.
  \<open>parse\<close> is the parser and analyzer (its diagnostics go to the error stream, its
  result is \<open>None\<close> when it failed); \<open>db_PrepareContext\<close> gives the pair
  \<open>(statement, error)\<close> of \<open>sql.DB.PrepareContext\<close>; the two \<open>Scan\<close> fields give the error
  or the scanned column of the single row; \<open>pjson\<close> decodes the JSON documents.\<close>

record ParseResult =
  pr_queries :: "Query list"
  pr_settings :: Settings

record World =
  parse :: "SQL \<Rightarrow> string list \<times> ParseResult option"
  shfmt_Replace :: "string \<Rightarrow> string"
  pgx_Connect :: "string \<Rightarrow> string option"
  pgx_Ping :: "string \<Rightarrow> string option"
  sql_Open :: "string \<Rightarrow> string \<Rightarrow> string option"
  db_PingContext :: "string \<Rightarrow> string \<Rightarrow> string option"
  time_Now_Unix :: "event list \<Rightarrow> int"
  pgx_Prepare :: "event list \<Rightarrow> string \<Rightarrow> string \<Rightarrow> string option"
  db_PrepareContext :: "event list \<Rightarrow> string \<Rightarrow> Stmt_handle option \<times> string option"
  pgx_QueryRow_Scan :: "event list \<Rightarrow> string \<Rightarrow> Parameter option list \<Rightarrow> string + string list"
  db_QueryRowContext_Scan :: "event list \<Rightarrow> string \<Rightarrow> Parameter option list \<Rightarrow> string + string"
  pjson_Unmarshal_pg :: "string \<Rightarrow> string + PostgreSQLExplain"
  pjson_Unmarshal_my :: "string \<Rightarrow> string + MySQLExplain"

text \<open>The error stream (one entry per \<open>Fprintf\<close>) and the calls made so far.\<close>

record state =
  Stderr :: "string list"
  trace :: "event list"

definition Fprintf :: "state \<Rightarrow> string \<Rightarrow> state" where
  "Fprintf st line = st\<lparr>Stderr := Stderr st @ [line]\<rparr>"

definition call :: "state \<Rightarrow> event \<Rightarrow> state" where
  "call st ev = st\<lparr>trace := trace st @ [ev]\<rparr>"


section \<open>Rule compilation (the first half of \<open>Vet\<close>)\<close>

text \<open>The CEL environment: \<open>env.Compile\<close> type-checks a source text (\<open>Inl\<close> carries
  \<open>issues.Err()\<close>), \<open>env.Program\<close> builds the program of a checked expression.\<close>

datatype Ast = Ast string

record CelEnv =
  cel_Compile :: "string \<Rightarrow> string + Ast"
  cel_Program :: "Ast \<Rightarrow> string + Program"

text \<open>The loop \<open>for _, c := range conf.Rules\<close> over the map \<open>rules\<close>.\<close>

fun compile_rules :: "CelEnv \<Rightarrow> RuleConfig list \<Rightarrow> (string \<rightharpoonup> rule) \<Rightarrow> string + (string \<rightharpoonup> rule)" where
  "compile_rules env [] rules = Inr rules"
| "compile_rules env (c # cs) rules =
    (if rc_name c = [] then Inl ''rules require a name''
     else if rules (rc_name c) \<noteq> None then
       Inl (''type-check error: a rule with the name '' @ quote @ rc_name c @ quote @ '' already exists'')
     else if rc_rule c = [] then Inl (''type-check error: '' @ rc_name c @ '' is empty'')
     else
       (case cel_Compile env (rc_rule c) of
          Inl issues \<Rightarrow> Inl (''type-check error: '' @ rc_name c @ '' '' @ issues)
        | Inr ast \<Rightarrow>
            (case cel_Program env ast of
               Inl err \<Rightarrow> Inl (''program construction error: '' @ rc_name c @ '' '' @ err)
             | Inr prg \<Rightarrow>
                 (let rule = \<lparr>Program = Some prg, Message = rc_msg c,
                               NeedsPrepare = False, NeedsExplain = False\<rparr>;
                      rule = (if Contains (rc_rule c) ''postgresql.explain'' \<or>
                                 Contains (rc_rule c) ''mysql.explain''
                              then rule\<lparr>NeedsExplain := True\<rparr> else rule)
                  in compile_rules env cs (rules(rc_name c \<mapsto> rule))))))"

text \<open>The initial map: the built-in rule only.\<close>

definition builtin_rule :: rule where
  "builtin_rule = \<lparr>Program = None, Message = [], NeedsPrepare = True, NeedsExplain = False\<rparr>"

definition initial_rules :: "string \<rightharpoonup> rule" where
  "initial_rules = [RuleDbPrepare \<mapsto> builtin_rule]"


section \<open>Capability providers\<close>

fun prepareable :: "SQL \<Rightarrow> Stmt \<Rightarrow> bool" where
  "prepareable sql raw =
    (if sql_engine sql = EnginePostgreSQL then
       (case raw of
          DeleteStmt \<Rightarrow> True
        | InsertStmt \<Rightarrow> True
        | SelectStmt \<Rightarrow> True
        | UpdateStmt \<Rightarrow> True
        | OtherStmt _ \<Rightarrow> False)
     else if sql_engine sql = EngineMySQL then True
     else if sql_engine sql = EngineSQLite then True
     else False)"

text \<open>\<open>pgxConn.Prepare\<close>: the error of \<open>p.c.Prepare\<close> is returned as it is.\<close>

definition pgxConn_Prepare :: "World \<Rightarrow> state \<Rightarrow> string \<Rightarrow> string \<Rightarrow> unit ret \<times> state" where
  "pgxConn_Prepare w st name query =
    (let err = pgx_Prepare w (trace st) name query;
         st = call st (PgxPrepare name query)
     in (case err of None \<Rightarrow> Ret () | Some e \<Rightarrow> Err e, st))"

text \<open>\<open>dbPreparer.Prepare\<close>: \<open>s.Close()\<close> is called on whatever \<open>PrepareContext\<close> returned.
  \<open>(*sql.Stmt).Close\<close> locks a mutex of its receiver first, so a nil receiver is a nil
  pointer dereference.\<close>

definition dbPreparer_Prepare :: "World \<Rightarrow> state \<Rightarrow> string \<Rightarrow> string \<Rightarrow> unit ret \<times> state" where
  "dbPreparer_Prepare w st name query =
    (let (s, err) = db_PrepareContext w (trace st) query;
         st = call st (DbPrepareContext query)
     in (case s of
           None \<Rightarrow> (Panicked ''runtime error: invalid memory address or nil pointer dereference'', st)
         | Some h \<Rightarrow>
             (let st = call st StmtClose
              in (case err of None \<Rightarrow> Ret () | Some e \<Rightarrow> Err e, st))))"

text \<open>\<open>make([]any, n)\<close>: \<open>n\<close> nil interface values.\<close>

definition make_any :: "nat \<Rightarrow> Parameter option list" where
  "make_any n = replicate n None"

text \<open>\<open>pgxConn.Explain\<close>. \<open>result[0]\<close> is an index into the scanned slice. (The dump of
  the plan to standard output under \<open>debug.Debug.DumpExplain\<close> is left out.)\<close>

definition pgxConn_Explain ::
  "World \<Rightarrow> state \<Rightarrow> string \<Rightarrow> Parameter list \<Rightarrow> vetEngineOutput ret \<times> state" where
  "pgxConn_Explain w st query args =
    (let eQuery = ''EXPLAIN (ANALYZE false, VERBOSE, COSTS, SETTINGS, BUFFERS, FORMAT JSON) '' @ query;
         eArgs = make_any (length args);
         row = pgx_QueryRow_Scan w (trace st) eQuery eArgs;
         st = call st (PgxQueryRow eQuery eArgs)
     in (case row of
           Inl err \<Rightarrow> (Err err, st)
         | Inr res \<Rightarrow>
             (case res of
                [] \<Rightarrow> (Panicked ''runtime error: index out of range [0] with length 0'', st)
              | r0 # _ \<Rightarrow>
                  (case pjson_Unmarshal_pg w r0 of
                     Inl err \<Rightarrow> (Err err, st)
                   | Inr explain \<Rightarrow>
                       (Ret \<lparr>out_PostgreSQL = Some (PostgreSQL (Some explain)), out_MySQL = None\<rparr>,
                        st)))))"

text \<open>\<open>mysqlExplainer.Explain\<close>. \<open>explain.QueryBlock.Message\<close> reads a field through the
  \<open>QueryBlock\<close> pointer.\<close>

definition mysqlExplainer_Explain ::
  "World \<Rightarrow> state \<Rightarrow> string \<Rightarrow> Parameter list \<Rightarrow> vetEngineOutput ret \<times> state" where
  "mysqlExplainer_Explain w st query args =
    (let eQuery = ''EXPLAIN FORMAT=JSON '' @ query;
         eArgs = make_any (length args);
         row = db_QueryRowContext_Scan w (trace st) eQuery eArgs;
         st = call st (DbQueryRowContext eQuery eArgs)
     in (case row of
           Inl err \<Rightarrow> (Err err, st)
         | Inr res \<Rightarrow>
             (case pjson_Unmarshal_my w res of
                Inl err \<Rightarrow> (Err err, st)
              | Inr explain \<Rightarrow>
                  (case my_query_block explain of
                     None \<Rightarrow>
                       (Panicked ''runtime error: invalid memory address or nil pointer dereference'', st)
                   | Some qb \<Rightarrow>
                       (if qb_message qb \<noteq> [] then (Err (''mysql explain: '' @ qb_message qb), st)
                        else (Ret \<lparr>out_PostgreSQL = None, out_MySQL = Some (MySQL (Some explain))\<rparr>,
                              st))))))"

text \<open>The two interfaces and the types that implement them in \<open>checkSQL\<close>.\<close>

datatype preparer = Preparer_pgxConn | Preparer_dbPreparer

datatype explainer = Explainer_pgxConn | Explainer_mysqlExplainer

fun Prepare :: "World \<Rightarrow> preparer \<Rightarrow> state \<Rightarrow> string \<Rightarrow> string \<Rightarrow> unit ret \<times> state" where
  "Prepare w Preparer_pgxConn st name query = pgxConn_Prepare w st name query"
| "Prepare w Preparer_dbPreparer st name query = dbPreparer_Prepare w st name query"

fun Explain ::
  "World \<Rightarrow> explainer \<Rightarrow> state \<Rightarrow> string \<Rightarrow> Parameter list \<Rightarrow> vetEngineOutput ret \<times> state" where
  "Explain w Explainer_pgxConn st query args = pgxConn_Explain w st query args"
| "Explain w Explainer_mysqlExplainer st query args = mysqlExplainer_Explain w st query args"


section \<open>Projections exposed to rule expressions\<close>

definition vetConfig :: "Settings \<Rightarrow> VetConfig" where
  "vetConfig settings =
    \<lparr>vc_version = settings_version settings, vc_engine = settings_engine settings,
     vc_schema = settings_schema settings, vc_queries = settings_queries settings\<rparr>"

definition vetQuery :: "Query \<Rightarrow> VetQuery" where
  "vetQuery q =
    \<lparr>vq_sql = query_text q, vq_name = query_name q,
     vq_cmd = TrimPrefix '':'' (query_cmd q),
     vq_params = map (\<lambda>p. \<lparr>vp_number = param_number p\<rparr>) (query_params q)\<rparr>"


section \<open>The evaluation loop (\<open>checkSQL\<close>)\<close>

record checker =
  Rules :: "string \<rightharpoonup> rule"
  NoDatabase :: bool

text \<open>Where control goes after a piece of a loop body: on to the next statement with the
  updated variables, or out of \<open>checkSQL\<close> with what it returns (a panic included).\<close>

datatype 'a flow = Continue 'a | Return result state

text \<open>The connection set-up: the values of \<open>prep\<close> and \<open>expl\<close>, or the error returned.\<close>

definition connect :: "World \<Rightarrow> checker \<Rightarrow> SQL \<Rightarrow> string + (preparer option \<times> explainer option)" where
  "connect w c s =
    (case sql_database s of
       None \<Rightarrow> Inr (None, None)
     | Some uri \<Rightarrow>
         (if NoDatabase c then Inl ''database: connections disabled via command line flag''
          else
            (let dburl = shfmt_Replace w uri
             in (case sql_engine s of
                   EnginePostgreSQL \<Rightarrow>
                     (case pgx_Connect w dburl of
                        Some err \<Rightarrow> Inl (''database: connection error: '' @ err)
                      | None \<Rightarrow>
                          (case pgx_Ping w dburl of
                             Some err \<Rightarrow> Inl (''database: connection error: '' @ err)
                           | None \<Rightarrow> Inr (Some Preparer_pgxConn, Some Explainer_pgxConn)))
                 | EngineMySQL \<Rightarrow>
                     (case sql_Open w ''mysql'' dburl of
                        Some err \<Rightarrow> Inl (''database: connection error: '' @ err)
                      | None \<Rightarrow>
                          (case db_PingContext w ''mysql'' dburl of
                             Some err \<Rightarrow> Inl (''database: connection error: '' @ err)
                           | None \<Rightarrow> Inr (Some Preparer_dbPreparer, Some Explainer_mysqlExplainer)))
                 | EngineSQLite \<Rightarrow>
                     (case sql_Open w ''sqlite3'' dburl of
                        Some err \<Rightarrow> Inl (''database: connection error: '' @ err)
                      | None \<Rightarrow>
                          (case db_PingContext w ''sqlite3'' dburl of
                             Some err \<Rightarrow> Inl (''database: connection error: '' @ err)
                           | None \<Rightarrow> Inr (Some Preparer_dbPreparer, None)))
                 | EngineOther e \<Rightarrow> Inl (''unsupported database uri: '' @ e)))))"

text \<open>The prefix \<open>"%s: %s: %s"\<close> of every diagnostic, with the three values given to it.\<close>

definition diag :: "Query \<Rightarrow> string \<Rightarrow> string" where
  "diag query name = query_filename query @ '': '' @ query_name query @ '': '' @ name"

text \<open>The block \<open>if rule.NeedsPrepare { ... }\<close>. The statement name is declared with
  \<open>name := ...\<close> inside the block, so from there to the end of the block \<open>name\<close> is the
  statement name; the \<open>let\<close> below shadows the rule's name in the same way.
  \<open>Continue (st, True)\<close> stands for \<open>errored = true; continue\<close>, \<open>Continue (st, False)\<close>
  for leaving the block.\<close>

definition prepare_step ::
  "World \<Rightarrow> SQL \<Rightarrow> preparer option \<Rightarrow> nat \<Rightarrow> Query \<Rightarrow> string \<Rightarrow> state \<Rightarrow> (state \<times> bool) flow" where
  "prepare_step w s prep i query name st =
    (case prep of
       None \<Rightarrow>
         Continue (Fprintf st (diag query name @
           '': error preparing query: database connection required'' @ newline), True)
     | Some p \<Rightarrow>
         (if \<not> prepareable s (query_raw_stmt query) then
            Continue (Fprintf st (diag query name @
              '': error preparing query: '' @ ''query type is unpreparable'' @ newline), True)
          else
            (let name = ''sqlc_vet_'' @ fmt_d (time_Now_Unix w (trace st)) @ ''_'' @ fmt_d (int i)
             in (case Prepare w p st name (query_text query) of
                   (Ret u, st) \<Rightarrow> Continue (st, False)
                 | (Err err, st) \<Rightarrow>
                     Continue (Fprintf st (diag query name @
                       '': error preparing query: '' @ err @ newline), True)
                 | (Panicked m, st) \<Rightarrow> Return (Panic m) st))))"

text \<open>The block \<open>if rule.NeedsExplain && !(pgsqlOK || mysqlOK) { ... }\<close>.
  \<open>Continue (st, evalMap, True)\<close> stands for \<open>errored = true; continue\<close>.\<close>

definition explain_step ::
  "World \<Rightarrow> explainer option \<Rightarrow> Query \<Rightarrow> string \<Rightarrow> rule \<Rightarrow> state \<Rightarrow> evalMap
    \<Rightarrow> (state \<times> evalMap \<times> bool) flow" where
  "explain_step w expl query name rule st evalMap =
    (let pgsqlOK = (evalMap ''postgresql'' \<noteq> None);
         mysqlOK = (evalMap ''mysql'' \<noteq> None)
     in (if NeedsExplain rule \<and> \<not> (pgsqlOK \<or> mysqlOK) then
           (case expl of
              None \<Rightarrow>
                Continue (Fprintf st (diag query name @
                  '': error explaining query: database connection required'' @ newline),
                  evalMap, True)
            | Some e \<Rightarrow>
                (case Explain w e st (query_text query) (query_params query) of
                   (Err err, st) \<Rightarrow>
                     Continue (Fprintf st (diag query name @
                       '': error explaining query: '' @ err @ newline), evalMap, True)
                 | (Panicked m, st) \<Rightarrow> Return (Panic m) st
                 | (Ret engineOutput, st) \<Rightarrow>
                     Continue (st,
                       evalMap(''postgresql'' \<mapsto> EPostgreSQL (out_PostgreSQL engineOutput),
                               ''mysql'' \<mapsto> EMySQL (out_MySQL engineOutput)),
                       False)))
         else Continue (st, evalMap, False)))"

text \<open>From \<open>(*rule.Program).Eval(evalMap)\<close> to the end of the loop body. The flag is the
  new value of \<open>errored\<close>.\<close>

definition eval_step ::
  "Program \<Rightarrow> Query \<Rightarrow> string \<Rightarrow> rule \<Rightarrow> state \<Rightarrow> bool \<Rightarrow> evalMap \<Rightarrow> (state \<times> bool) flow" where
  "eval_step prg query name rule st errored evalMap =
    (let st = call st (ProgramEval (query_name query) name)
     in (case prg evalMap of
           Inl err \<Rightarrow> Return (Error err) st
         | Inr out \<Rightarrow>
             (case out of
                VBool tripped \<Rightarrow>
                  (if tripped then
                     (if Message rule = [] then
                        Continue (Fprintf st (diag query name @ newline), True)
                      else
                        Continue (Fprintf st (diag query name @ '': '' @ Message rule @ newline),
                                  True))
                   else Continue (st, errored))
              | VInt _ \<Rightarrow>
                  Return (Error (''expression returned non-bool value: '' @ fmt_v out)) st
              | VString _ \<Rightarrow>
                  Return (Error (''expression returned non-bool value: '' @ fmt_v out)) st
              | VOther _ \<Rightarrow>
                  Return (Error (''expression returned non-bool value: '' @ fmt_v out)) st)))"

text \<open>One iteration of \<open>for _, name := range s.Rules\<close>, on the loop's variables
  \<open>errored\<close> and \<open>evalMap\<close>.\<close>

definition check_rule ::
  "World \<Rightarrow> checker \<Rightarrow> SQL \<Rightarrow> preparer option \<Rightarrow> explainer option \<Rightarrow> nat \<Rightarrow> Query \<Rightarrow> string
    \<Rightarrow> state \<times> bool \<times> evalMap \<Rightarrow> (state \<times> bool \<times> evalMap) flow" where
  "check_rule w c s prep expl i query name v =
    (case v of (st, errored, evalMap) \<Rightarrow>
      (case Rules c name of
         None \<Rightarrow>
           Return (Error (''type-check error: a rule with the name '' @ quote @ name @ quote @
                          '' does not exist'')) st
       | Some rule \<Rightarrow>
           (case (if NeedsPrepare rule then prepare_step w s prep i query name st
                  else Continue (st, False)) of
              Return r st \<Rightarrow> Return r st
            | Continue (st, True) \<Rightarrow> Continue (st, True, evalMap)
            | Continue (st, False) \<Rightarrow>
                (case Program rule of
                   None \<Rightarrow> Continue (st, errored, evalMap)
                 | Some prg \<Rightarrow>
                     (case explain_step w expl query name rule st evalMap of
                        Return r st \<Rightarrow> Return r st
                      | Continue (st, evalMap, True) \<Rightarrow> Continue (st, True, evalMap)
                      | Continue (st, evalMap, False) \<Rightarrow>
                          (case eval_step prg query name rule st errored evalMap of
                             Return r st \<Rightarrow> Return r st
                           | Continue (st, errored) \<Rightarrow> Continue (st, errored, evalMap)))))))"

fun check_rules ::
  "World \<Rightarrow> checker \<Rightarrow> SQL \<Rightarrow> preparer option \<Rightarrow> explainer option \<Rightarrow> nat \<Rightarrow> Query \<Rightarrow> string list
    \<Rightarrow> state \<times> bool \<times> evalMap \<Rightarrow> (state \<times> bool \<times> evalMap) flow" where
  "check_rules w c s prep expl i query [] v = Continue v"
| "check_rules w c s prep expl i query (name # names) v =
    (case check_rule w c s prep expl i query name v of
       Return r st \<Rightarrow> Return r st
     | Continue v \<Rightarrow> check_rules w c s prep expl i query names v)"

text \<open>The loop \<open>for i, query := range req.Queries\<close>; \<open>evalMap\<close> is made anew for each
  query. (With \<open>debug.Active\<close> a skipped query is logged through package \<open>log\<close>, not to
  \<open>c.Stderr\<close>; left out.)\<close>

definition new_evalMap :: "Query \<Rightarrow> VetConfig \<Rightarrow> evalMap" where
  "new_evalMap query cfg = [''query'' \<mapsto> EQuery (vetQuery query), ''config'' \<mapsto> EConfig cfg]"

definition disabled :: "Query \<Rightarrow> bool" where
  "disabled query = (query_flags query QueryFlagSqlcVetDisable = Some True)"

fun check_queries ::
  "World \<Rightarrow> checker \<Rightarrow> SQL \<Rightarrow> preparer option \<Rightarrow> explainer option \<Rightarrow> VetConfig \<Rightarrow> nat
    \<Rightarrow> Query list \<Rightarrow> state \<times> bool \<Rightarrow> (state \<times> bool) flow" where
  "check_queries w c s prep expl cfg i [] v = Continue v"
| "check_queries w c s prep expl cfg i (query # queries) v =
    (if disabled query then check_queries w c s prep expl cfg (Suc i) queries v
     else
       (case check_rules w c s prep expl i query (sql_rules s)
               (fst v, snd v, new_evalMap query cfg) of
          Return r st \<Rightarrow> Return r st
        | Continue (st, errored, evalMap) \<Rightarrow>
            check_queries w c s prep expl cfg (Suc i) queries (st, errored)))"

text \<open>\<open>checkSQL\<close>: parse, connect, run the loops, and turn \<open>errored\<close> into the result.
  (The joining of \<open>c.Dir\<close> to the paths of the group is part of what \<open>parse\<close> stands for.)\<close>

definition checkSQL :: "World \<Rightarrow> checker \<Rightarrow> SQL \<Rightarrow> state \<Rightarrow> result \<times> state" where
  "checkSQL w c s st =
    (case parse w s of
       (out, None) \<Rightarrow> (ErrFailedChecks, st\<lparr>Stderr := Stderr st @ out\<rparr>)
     | (out, Some res) \<Rightarrow>
         (let st = st\<lparr>Stderr := Stderr st @ out\<rparr>
          in (case connect w c s of
                Inl err \<Rightarrow> (Error err, st)
              | Inr (prep, expl) \<Rightarrow>
                  (case check_queries w c s prep expl (vetConfig (pr_settings res)) 0
                          (pr_queries res) (st, False) of
                     Return r st \<Rightarrow> (r, st)
                   | Continue (st, errored) \<Rightarrow>
                       (if errored then (ErrFailedChecks, st) else (NoError, st))))))"


section \<open>The run (\<open>Vet\<close>) and the command\<close>

text \<open>The loop \<open>for _, sql := range conf.SQL\<close> of \<open>Vet\<close> and its return value. An error
  that is not \<open>ErrFailedChecks\<close> is printed; \<open>errored\<close> is set for both. A panic unwinds
  through \<open>Vet\<close>.\<close>

fun check_groups :: "World \<Rightarrow> checker \<Rightarrow> SQL list \<Rightarrow> state \<Rightarrow> bool \<Rightarrow> result \<times> state" where
  "check_groups w c [] st errored = (if errored then (ErrFailedChecks, st) else (NoError, st))"
| "check_groups w c (sql # sqls) st errored =
    (case checkSQL w c sql st of
       (NoError, st) \<Rightarrow> check_groups w c sqls st errored
     | (ErrFailedChecks, st) \<Rightarrow> check_groups w c sqls st True
     | (Error err, st) \<Rightarrow> check_groups w c sqls (Fprintf st (err @ newline)) True
     | (Panic m, st) \<Rightarrow> (Panic m, st))"

text \<open>\<open>Vet\<close>, from the rule map on. Reading and validating the configuration and
  \<open>cel.NewEnv\<close> come before and are taken to have succeeded; \<open>noDatabase\<close> is
  \<open>e.NoDatabase\<close>.\<close>

definition Vet :: "World \<Rightarrow> CelEnv \<Rightarrow> bool \<Rightarrow> Config \<Rightarrow> state \<Rightarrow> result \<times> state" where
  "Vet w env noDatabase conf st =
    (case compile_rules env (conf_rules conf) initial_rules of
       Inl err \<Rightarrow> (Error err, st)
     | Inr rules \<Rightarrow>
         check_groups w \<lparr>Rules = rules, NoDatabase = noDatabase\<rparr> (conf_sql conf) st False)"

text \<open>The \<open>RunE\<close> function of \<open>NewCmdVet\<close>: the exit status of the process and the error
  stream. Any error of \<open>Vet\<close> ends in \<open>os.Exit(1)\<close>; an unrecovered panic ends a Go
  process with status 2.\<close>

definition RunE :: "World \<Rightarrow> CelEnv \<Rightarrow> bool \<Rightarrow> Config \<Rightarrow> state \<Rightarrow> nat \<times> state" where
  "RunE w env noDatabase conf st =
    (case Vet w env noDatabase conf st of
       (NoError, st) \<Rightarrow> (0, st)
     | (ErrFailedChecks, st) \<Rightarrow> (1, st)
     | (Error err, st) \<Rightarrow> (1, Fprintf st (err @ newline))
     | (Panic m, st) \<Rightarrow> (2, st))"


section \<open>Observations on a run\<close>

text \<open>The calls that ask a database for a query plan.\<close>

fun is_explain_call :: "event \<Rightarrow> bool" where
  "is_explain_call (PgxQueryRow q args) = True"
| "is_explain_call (DbQueryRowContext q args) = True"
| "is_explain_call (PgxPrepare n q) = False"
| "is_explain_call (DbPrepareContext q) = False"
| "is_explain_call StmtClose = False"
| "is_explain_call (ProgramEval q n) = False"

definition explain_calls :: "event list \<Rightarrow> nat" where
  "explain_calls tr = length (filter is_explain_call tr)"

text \<open>Whether a call that asked for a plan, made after the calls \<open>tr\<close>, gave the adapter a
  result to return: the row was scanned (for Postgres, with a first element), the document
  was decoded, and for MySQL the query block is there with an empty message. Every other
  outcome of \<open>Explain\<close> is an error or a panic.\<close>

fun explain_succeeded :: "World \<Rightarrow> event list \<Rightarrow> event \<Rightarrow> bool" where
  "explain_succeeded w tr (PgxQueryRow q args) =
    (case pgx_QueryRow_Scan w tr q args of
       Inl err \<Rightarrow> False
     | Inr res \<Rightarrow>
         (case res of
            [] \<Rightarrow> False
          | r0 # _ \<Rightarrow>
              (case pjson_Unmarshal_pg w r0 of Inl err \<Rightarrow> False | Inr explain \<Rightarrow> True)))"
| "explain_succeeded w tr (DbQueryRowContext q args) =
    (case db_QueryRowContext_Scan w tr q args of
       Inl err \<Rightarrow> False
     | Inr res \<Rightarrow>
         (case pjson_Unmarshal_my w res of
            Inl err \<Rightarrow> False
          | Inr explain \<Rightarrow>
              (case my_query_block explain of
                 None \<Rightarrow> False
               | Some qb \<Rightarrow> qb_message qb = [])))"
| "explain_succeeded w tr (PgxPrepare n q) = False"
| "explain_succeeded w tr (DbPrepareContext q) = False"
| "explain_succeeded w tr StmtClose = False"
| "explain_succeeded w tr (ProgramEval q n) = False"



text \<open>The rule a name has in the result of the compilation, if it succeeded.\<close>

fun compiled :: "string + (string \<rightharpoonup> rule) \<Rightarrow> string \<Rightarrow> rule option" where
  "compiled (Inl err) name = None"
| "compiled (Inr rules) name = rules name"


section \<open>Example inputs\<close>

text \<open>A world in which every collaborator succeeds, and a query, settings and groups to
  run in it. The examples below change one thing at a time.\<close>

definition example_world :: World where
  "example_world =
    \<lparr>parse = (\<lambda>s. ([], None)),
     shfmt_Replace = (\<lambda>dsn. dsn),
     pgx_Connect = (\<lambda>dburl. None),
     pgx_Ping = (\<lambda>dburl. None),
     sql_Open = (\<lambda>driver dburl. None),
     db_PingContext = (\<lambda>driver dburl. None),
     time_Now_Unix = (\<lambda>tr. 1700000000),
     pgx_Prepare = (\<lambda>tr name query. None),
     db_PrepareContext = (\<lambda>tr query. (Some (Stmt_handle 0), None)),
     pgx_QueryRow_Scan = (\<lambda>tr q args. Inr [''{}'']),
     db_QueryRowContext_Scan = (\<lambda>tr q args. Inr ''{}''),
     pjson_Unmarshal_pg = (\<lambda>doc. Inr \<lparr>pg_plan = None, pg_settings = []\<rparr>),
     pjson_Unmarshal_my = (\<lambda>doc. Inr \<lparr>my_query_block =
        Some \<lparr>qb_select_id = 1, qb_message = [], qb_cost_info = []\<rparr>\<rparr>)\<rparr>"

definition example_query :: Query where
  "example_query =
    \<lparr>query_text = ''SELECT id FROM users WHERE id = $1'', query_name = ''GetUser'',
     query_cmd = '':one'', query_params = [\<lparr>param_number = 1, param_column = ''id''\<rparr>],
     query_filename = ''query.sql'', query_flags = Map.empty, query_raw_stmt = SelectStmt\<rparr>"

definition many_query :: Query where
  "many_query =
    \<lparr>query_text = ''SELECT id FROM users'', query_name = ''ListUsers'',
     query_cmd = '':many'', query_params = [],
     query_filename = ''query.sql'', query_flags = Map.empty, query_raw_stmt = SelectStmt\<rparr>"

definition ddl_query :: Query where
  "ddl_query =
    \<lparr>query_text = ''CREATE TABLE users (id int)'', query_name = ''CreateUsers'',
     query_cmd = '':exec'', query_params = [],
     query_filename = ''ddl.sql'', query_flags = Map.empty,
     query_raw_stmt = OtherStmt ''CreateTableStmt''\<rparr>"

definition skipped_query :: Query where
  "skipped_query = example_query\<lparr>query_name := ''Skipped'',
     query_flags := [QueryFlagSqlcVetDisable \<mapsto> True]\<rparr>"

definition example_settings :: Settings where
  "example_settings = \<lparr>settings_version = ''2'', settings_engine = ''postgresql'',
     settings_schema = [''schema.sql''], settings_queries = [''query.sql'']\<rparr>"

definition parsed :: "Query list \<Rightarrow> SQL \<Rightarrow> string list \<times> ParseResult option" where
  "parsed qs s = ([], Some \<lparr>pr_queries = qs, pr_settings = example_settings\<rparr>)"

definition init_state :: state where
  "init_state = \<lparr>Stderr = [], trace = []\<rparr>"

text \<open>A group with a database and one without.\<close>

definition db_group :: "Engine \<Rightarrow> string list \<Rightarrow> SQL" where
  "db_group e names = \<lparr>sql_engine = e, sql_schema = [''schema.sql''],
     sql_queries = [''query.sql''], sql_database = Some ''dsn'', sql_rules = names\<rparr>"

definition nodb_group :: "Engine \<Rightarrow> string list \<Rightarrow> SQL" where
  "nodb_group e names = \<lparr>sql_engine = e, sql_schema = [''schema.sql''],
     sql_queries = [''query.sql''], sql_database = None, sql_rules = names\<rparr>"


text \<open>The source of the rule \<open>needs-limit\<close>,
  \<^verbatim>\<open>query.cmd == ":many" && !query.sql.contains("LIMIT")\<close>, and what CEL computes for it:
  equality of strings, \<open>contains\<close> of the strings extension, negation and conjunction,
  on the fields \<open>cmd\<close> and \<open>sql\<close> of the variable \<open>query\<close>.\<close>

definition dquote :: string where
  "dquote = [CHR 0x22]"

definition needs_limit_src :: string where
  "needs_limit_src = ''query.cmd == '' @ dquote @ '':many'' @ dquote @
     '' && !query.sql.contains('' @ dquote @ ''LIMIT'' @ dquote @ '')''"

definition needs_limit_program :: Program where
  "needs_limit_program evalMap =
    (case evalMap ''query'' of
       Some (EQuery q) \<Rightarrow> Inr (VBool (vq_cmd q = '':many'' \<and> \<not> Contains (vq_sql q) ''LIMIT''))
     | _ \<Rightarrow> Inl ''no such attribute(s): query'')"

text \<open>The programs of a few more sources: \<open>query.sql\<close> (a string, not a bool), \<open>true\<close>,
  and two rules on the explain output that hold for no plan.\<close>

definition query_sql_program :: Program where
  "query_sql_program evalMap =
    (case evalMap ''query'' of
       Some (EQuery q) \<Rightarrow> Inr (VString (vq_sql q))
     | _ \<Rightarrow> Inl ''no such attribute(s): query'')"

definition example_Program :: "Ast \<Rightarrow> string + Program" where
  "example_Program ast =
    (case ast of Ast src \<Rightarrow>
      (if src = needs_limit_src then Inr needs_limit_program
       else if src = ''query.sql'' then Inr query_sql_program
       else if src = ''true'' then Inr (\<lambda>evalMap. Inr (VBool True))
       else Inr (\<lambda>evalMap. Inr (VBool False))))"

definition example_cel :: CelEnv where
  "example_cel = \<lparr>cel_Compile = (\<lambda>src. Inr (Ast src)), cel_Program = example_Program\<rparr>"

definition false_rule :: "bool \<Rightarrow> rule" where
  "false_rule explain = \<lparr>Program = Some (\<lambda>evalMap. Inr (VBool False)), Message = [],
     NeedsPrepare = False, NeedsExplain = explain\<rparr>"

definition example_checker :: checker where
  "example_checker =
    \<lparr>Rules = initial_rules(''cost'' \<mapsto> false_rule True, ''rows'' \<mapsto> false_rule True,
        ''always'' \<mapsto> \<lparr>Program = Some (\<lambda>evalMap. Inr (VBool True)), Message = [],
                         NeedsPrepare = False, NeedsExplain = False\<rparr>,
        ''bad'' \<mapsto> \<lparr>Program = Some query_sql_program, Message = [],
                      NeedsPrepare = False, NeedsExplain = False\<rparr>),
     NoDatabase = False\<rparr>"


section \<open>Facts about the library functions and evaluation rules\<close>

text \<open>\<open>HasPrefix\<close> and \<open>Contains\<close> are the usual notions of prefix and substring.\<close>

lemma HasPrefix_iff: "HasPrefix s p \<longleftrightarrow> (\<exists>ss. s = p @ ss)"
  by (induction s p rule: HasPrefix.induct) auto

lemma Contains_iff: "Contains s substr \<longleftrightarrow> (\<exists>ps ss. s = ps @ substr @ ss)"
proof (induction s)
  case Nil
  then show ?case by (cases substr) auto
next
  case (Cons c cs)
  show ?case
  proof
    assume "Contains (c # cs) substr"
    then consider "HasPrefix (c # cs) substr" | "Contains cs substr" by auto
    then show "\<exists>ps ss. c # cs = ps @ substr @ ss"
    proof cases
      case 1
      then obtain ss where "c # cs = substr @ ss" by (auto simp: HasPrefix_iff)
      then have "c # cs = [] @ substr @ ss" by simp
      then show ?thesis by blast
    next
      case 2
      then obtain ps ss where "cs = ps @ substr @ ss" using Cons.IH by auto
      then have "c # cs = (c # ps) @ substr @ ss" by simp
      then show ?thesis by blast
    qed
  next
    assume "\<exists>ps ss. c # cs = ps @ substr @ ss"
    then obtain ps ss where eq: "c # cs = ps @ substr @ ss" by auto
    show "Contains (c # cs) substr"
    proof (cases ps)
      case Nil
      then have "HasPrefix (c # cs) substr" using eq by (auto simp: HasPrefix_iff)
      then show ?thesis by simp
    next
      case (Cons p ps')
      then have "cs = ps' @ substr @ ss" using eq by simp
      then have "Contains cs substr" using Cons.IH by blast
      then show ?thesis by simp
    qed
  qed
qed

lemma fmt_d_now: "fmt_d 1700000000 = ''1700000000''"
  by (simp add: fmt_d_def fmt_nat.simps digit_def)

lemma fmt_d_0: "fmt_d 0 = ''0''"
  by (simp add: fmt_d_def fmt_nat.simps digit_def)

lemmas step_defs = check_rule_def prepare_step_def explain_step_def eval_step_def
  diag_def Fprintf_def call_def pgxConn_Prepare_def dbPreparer_Prepare_def
  pgxConn_Explain_def mysqlExplainer_Explain_def make_any_def

lemmas run_defs = Vet_def RunE_def checkSQL_def connect_def new_evalMap_def disabled_def
  vetConfig_def vetQuery_def TrimPrefix_def initial_rules_def builtin_rule_def
  RuleDbPrepare_def QueryFlagSqlcVetDisable_def newline_def quote_def dquote_def

lemmas example_defs = example_world_def example_query_def many_query_def ddl_query_def
  skipped_query_def example_settings_def parsed_def init_state_def db_group_def
  nodb_group_def needs_limit_src_def needs_limit_program_def query_sql_program_def
  example_Program_def example_cel_def false_rule_def example_checker_def


section \<open>Capability providers: what reaches the database\<close>

text \<open>
  Claim C10. For every \<open>Explain\<close> call on the Postgres and the MySQL adapter, the argument
  list sent with the \<open>EXPLAIN\<close> statement has one entry per parameter of the query and
  every entry is nil: the one call each adapter makes is the query row with the
  \<open>EXPLAIN\<close> text and \<open>length args\<close> nil values, and replacing the caller's parameters by
  any others (\<open>map f args\<close>) changes neither the call nor the result, so no value or
  metadata of a parameter is forwarded.
\<close>

theorem explain_arguments_all_nil:
  "trace (snd (pgxConn_Explain w st query args)) =
     trace st @ [PgxQueryRow
       (''EXPLAIN (ANALYZE false, VERBOSE, COSTS, SETTINGS, BUFFERS, FORMAT JSON) '' @ query)
       (replicate (length args) None)]
   \<and> trace (snd (mysqlExplainer_Explain w st query args)) =
     trace st @ [DbQueryRowContext (''EXPLAIN FORMAT=JSON '' @ query)
       (replicate (length args) None)]
   \<and> pgxConn_Explain w st query (map f args) = pgxConn_Explain w st query args
   \<and> mysqlExplainer_Explain w st query (map f args) = mysqlExplainer_Explain w st query args"
  by (simp add: pgxConn_Explain_def mysqlExplainer_Explain_def make_any_def call_def Let_def
        split: sum.split list.split option.split)

text \<open>\<open>dbPreparer.Prepare\<close> panics whenever \<open>PrepareContext\<close> gives no statement, and it
  returns an error only together with a statement.\<close>

lemma dbPreparer_Prepare_nil_statement:
  "fst (db_PrepareContext w (trace st) query) = None \<Longrightarrow>
     dbPreparer_Prepare w st name query =
       (Panicked ''runtime error: invalid memory address or nil pointer dereference'',
        call st (DbPrepareContext query))"
  by (auto simp: dbPreparer_Prepare_def Let_def split: prod.splits)

lemma dbPreparer_Prepare_never_reports:
  "fst (dbPreparer_Prepare w st name query) = Err e \<Longrightarrow>
     \<exists>h. db_PrepareContext w (trace st) query = (Some h, Some e)"
  by (auto simp: dbPreparer_Prepare_def Let_def split: prod.splits option.splits)

text \<open>
  Claim C1. A \<open>Prepare\<close> error is to be a reported violation and never a panic on the
  MySQL and SQLite adapters. The run below has one MySQL group with a database, the rule
  \<open>sqlc/db-prepare\<close> and one query for which \<open>PrepareContext\<close> returns no statement and
  an error: \<open>dbPreparer.Prepare\<close> closes the nil statement, so the run panics, nothing is
  printed and no violation is recorded.
\<close>

theorem mysql_prepare_error_panics:
  "Vet (example_world\<lparr>parse := parsed [example_query],
          db_PrepareContext := (\<lambda>tr query. (None, Some ''Error 1064: syntax error''))\<rparr>)
       example_cel False
       \<lparr>conf_rules = [], conf_sql = [db_group EngineMySQL [RuleDbPrepare]]\<rparr> init_state
   = (Panic ''runtime error: invalid memory address or nil pointer dereference'',
      \<lparr>Stderr = [], trace = [DbPrepareContext ''SELECT id FROM users WHERE id = $1'']\<rparr>)"
  by (simp add: run_defs step_defs example_defs)


section \<open>Diagnostics\<close>

text \<open>The line printed for a failed \<open>Prepare\<close> on the Postgres adapter, for any query:
  its third field is the statement name.\<close>

lemma pgx_prepare_error_line:
  assumes "prepareable s (query_raw_stmt query)"
    and "pgx_Prepare w (trace st)
           (''sqlc_vet_'' @ fmt_d (time_Now_Unix w (trace st)) @ ''_'' @ fmt_d (int i))
           (query_text query) = Some err"
  shows "prepare_step w s (Some Preparer_pgxConn) i query name st =
     Continue (Fprintf
       (call st (PgxPrepare
          (''sqlc_vet_'' @ fmt_d (time_Now_Unix w (trace st)) @ ''_'' @ fmt_d (int i))
          (query_text query)))
       (query_filename query @ '': '' @ query_name query @ '': '' @
        (''sqlc_vet_'' @ fmt_d (time_Now_Unix w (trace st)) @ ''_'' @ fmt_d (int i)) @
        '': error preparing query: '' @ err @ newline), True)"
  using assms
  by (simp add: prepare_step_def pgxConn_Prepare_def diag_def Let_def del: prepareable.simps)

text \<open>
  Claim C9. The third field of every diagnostic line is to be the name of the configured
  rule, also on the line of a prepare error. The run below has one Postgres group with a
  database, the rule \<open>sqlc/db-prepare\<close> and one query whose \<open>Prepare\<close> fails: the line
  printed has the name of the prepared statement, \<open>sqlc_vet_1700000000_0\<close>, where the
  rule's name belongs.
\<close>

theorem prepare_error_line_names_statement:
  "Vet (example_world\<lparr>parse := parsed [example_query],
          pgx_Prepare := (\<lambda>tr name query. Some ''ERROR: syntax error (SQLSTATE 42601)'')\<rparr>)
       example_cel False
       \<lparr>conf_rules = [], conf_sql = [db_group EnginePostgreSQL [RuleDbPrepare]]\<rparr> init_state
   = (ErrFailedChecks,
      \<lparr>Stderr = [''query.sql: GetUser: sqlc_vet_1700000000_0: error preparing query: ERROR: syntax error (SQLSTATE 42601)'' @ newline],
       trace = [PgxPrepare ''sqlc_vet_1700000000_0'' ''SELECT id FROM users WHERE id = $1'']\<rparr>)"
  by (simp add: run_defs step_defs example_defs fmt_d_now fmt_d_0)


section \<open>The projection of a query\<close>

text \<open>The field \<open>cmd\<close> of the projection does not depend on the command kind, the
  command \<open>:\<close> apart.\<close>

lemma vetQuery_cmd:
  "vq_cmd (vetQuery q) = (if query_cmd q = '':'' then [] else '':'')"
proof (cases "query_cmd q")
  case Nil
  then show ?thesis by (simp add: vetQuery_def TrimPrefix_def)
next
  case (Cons a as)
  then show ?thesis by (cases as) (auto simp: vetQuery_def TrimPrefix_def)
qed

text \<open>
  Claim C5. The rule \<open>needs-limit\<close> is to record one violation for a \<open>:many\<close> query
  without \<open>LIMIT\<close>. \<open>vetQuery\<close> calls \<open>strings.TrimPrefix(":", q.Cmd)\<close>, the string to trim
  and the prefix exchanged, so the field \<open>cmd\<close> of the query \<open>ListUsers\<close> below is \<open>:\<close>
  and not its command kind; the rule evaluates to false and the run ends without any
  violation.
\<close>

theorem needs_limit_never_trips:
  "vq_cmd (vetQuery many_query) = '':''
   \<and> \<not> Contains (query_text many_query) ''LIMIT''
   \<and> Vet (example_world\<lparr>parse := parsed [many_query]\<rparr>) example_cel False
       \<lparr>conf_rules = [\<lparr>rc_name = ''needs-limit'', rc_rule = needs_limit_src, rc_msg = []\<rparr>],
        conf_sql = [nodb_group EnginePostgreSQL [''needs-limit'']]\<rparr> init_state
     = (NoError, \<lparr>Stderr = [], trace = [ProgramEval ''ListUsers'' ''needs-limit'']\<rparr>)"
  by (simp add: run_defs step_defs example_defs)


section \<open>Rule compilation\<close>

text \<open>A name is entered into the map once: a later rule definition of the same name is an
  error, so what the loop has stored stays.\<close>

lemma compile_rules_keeps:
  "compile_rules env cs rules = Inr rules' \<Longrightarrow> rules k = Some r \<Longrightarrow> rules' k = Some r"
proof (induction cs arbitrary: rules)
  case Nil
  then show ?case by simp
next
  case (Cons c cs)
  from Cons.prems(1) have name: "rules (rc_name c) = None"
    by (auto split: if_splits)
  with Cons.prems(2) have ne: "k \<noteq> rc_name c" by auto
  from Cons.prems(1) obtain rule' where
    rest: "compile_rules env cs (rules(rc_name c \<mapsto> rule')) = Inr rules'"
    by (auto simp: Let_def split: if_splits sum.splits)
  have "(rules(rc_name c \<mapsto> rule')) k = Some r"
    using ne Cons.prems(2) by simp
  with Cons.IH [OF rest] show ?case .
qed

lemma compile_rules_entry:
  "compile_rules env cs rules = Inr rules' \<Longrightarrow> c \<in> set cs \<Longrightarrow>
   \<exists>prg. rules' (rc_name c) =
     Some \<lparr>Program = Some prg, Message = rc_msg c, NeedsPrepare = False,
           NeedsExplain = (Contains (rc_rule c) ''postgresql.explain'' \<or>
                           Contains (rc_rule c) ''mysql.explain'')\<rparr>"
proof (induction cs arbitrary: rules)
  case Nil
  then show ?case by simp
next
  case (Cons d cs)
  from Cons.prems(1) obtain ast prg where
    comp: "cel_Compile env (rc_rule d) = Inr ast" and prog: "cel_Program env ast = Inr prg"
    by (auto split: if_splits sum.splits)
  let ?r = "\<lparr>Program = Some prg, Message = rc_msg d, NeedsPrepare = False,
             NeedsExplain = (Contains (rc_rule d) ''postgresql.explain'' \<or>
                             Contains (rc_rule d) ''mysql.explain'')\<rparr>"
  from Cons.prems(1) comp prog have
    rest: "compile_rules env cs (rules(rc_name d \<mapsto> ?r)) = Inr rules'"
    by (auto simp: Let_def split: if_splits)
  show ?case
  proof (cases "c = d")
    case True
    have "rules' (rc_name d) = Some ?r"
      using compile_rules_keeps [OF rest, of "rc_name d" ?r] by simp
    with True show ?thesis by blast
  next
    case False
    with Cons.prems(2) have "c \<in> set cs" by simp
    from Cons.IH [OF rest this] show ?thesis .
  qed
qed

text \<open>
  Claim C4, as the code has it. For every rule definition of a list that compiles, the
  compiled rule has \<open>NeedsExplain\<close> true when its source text contains
  \<open>postgresql.explain\<close> or contains \<open>mysql.explain\<close>, and false otherwise. The flag is set
  by the compilation; the rule map is an input of \<open>checkSQL\<close> that it only reads.
\<close>

theorem needs_explain_is_textual:
  assumes "compile_rules env cs initial_rules = Inr rules" and "c \<in> set cs"
  shows "\<exists>r. rules (rc_name c) = Some r \<and>
           NeedsExplain r = (Contains (rc_rule c) ''postgresql.explain'' \<or>
                             Contains (rc_rule c) ''mysql.explain'')"
  using compile_rules_entry [OF assms] by auto

theorem needs_explain_is_textual_witness:
  "compile_rules example_cel
     [\<lparr>rc_name = ''no-seq-scan'', rc_rule = ''postgresql.explain.plan.node_type == 1'', rc_msg = []\<rparr>,
      \<lparr>rc_name = ''no-star'', rc_rule = ''true'', rc_msg = ''avoid select *''\<rparr>] initial_rules
   = Inr (initial_rules(
       ''no-seq-scan'' \<mapsto> false_rule True,
       ''no-star'' \<mapsto> \<lparr>Program = Some (\<lambda>evalMap. Inr (VBool True)), Message = ''avoid select *'',
                      NeedsPrepare = False, NeedsExplain = False\<rparr>))
   \<and> (\<exists>r. (initial_rules(
       ''no-seq-scan'' \<mapsto> false_rule True,
       ''no-star'' \<mapsto> \<lparr>Program = Some (\<lambda>evalMap. Inr (VBool True)), Message = ''avoid select *'',
                      NeedsPrepare = False, NeedsExplain = False\<rparr>)) ''no-seq-scan'' = Some r
        \<and> NeedsExplain r = True)"
proof -
  have c: "compile_rules example_cel
     [\<lparr>rc_name = ''no-seq-scan'', rc_rule = ''postgresql.explain.plan.node_type == 1'', rc_msg = []\<rparr>,
      \<lparr>rc_name = ''no-star'', rc_rule = ''true'', rc_msg = ''avoid select *''\<rparr>] initial_rules
   = Inr (initial_rules(
       ''no-seq-scan'' \<mapsto> false_rule True,
       ''no-star'' \<mapsto> \<lparr>Program = Some (\<lambda>evalMap. Inr (VBool True)), Message = ''avoid select *'',
                      NeedsPrepare = False, NeedsExplain = False\<rparr>))"
    by (simp add: run_defs example_defs)
  show ?thesis
    using c needs_explain_is_textual [OF c,
        of "\<lparr>rc_name = ''no-seq-scan'', rc_rule = ''postgresql.explain.plan.node_type == 1'', rc_msg = []\<rparr>"]
    by simp
qed

text \<open>
  Claim C4, as stated, has \<open>NeedsExplain\<close> false for every source that does not contain
  \<open>postgresql.explain\<close>. The source below does not contain it and its rule has the flag
  set, because it contains \<open>mysql.explain\<close>.
\<close>

theorem mysql_explain_sets_needs_explain:
  "map_option NeedsExplain
     (compiled (compile_rules example_cel
        [\<lparr>rc_name = ''no-filesort'', rc_rule = ''mysql.explain.query_block.select_id > 1'',
          rc_msg = []\<rparr>] initial_rules) ''no-filesort'') = Some True
   \<and> \<not> Contains ''mysql.explain.query_block.select_id > 1'' ''postgresql.explain''"
  by (simp add: run_defs example_defs)


section \<open>Rules that need a database\<close>

lemma prepareable_iff:
  "prepareable s raw \<longleftrightarrow>
     (sql_engine s = EnginePostgreSQL \<and> raw \<in> {DeleteStmt, InsertStmt, SelectStmt, UpdateStmt})
     \<or> sql_engine s = EngineMySQL \<or> sql_engine s = EngineSQLite"
  by (cases raw) auto

lemma connect_engine:
  "connect w c s = Inr (Some p, expl) \<Longrightarrow>
     sql_engine s = EnginePostgreSQL \<or> sql_engine s = EngineMySQL \<or> sql_engine s = EngineSQLite"
  by (cases "sql_engine s") (auto simp: connect_def split: option.splits if_splits)

lemmas ex_checker = example_checker_def initial_rules_def builtin_rule_def false_rule_def
  RuleDbPrepare_def

text \<open>
  Claim C6, as the code has it. When the group has no database configured, \<open>prep\<close> and
  \<open>expl\<close> are nil; a rule that needs preparation then prints
  \<open>error preparing query: database connection required\<close> under its name, and a rule whose
  program needs explain output (none being bound yet) prints
  \<open>error explaining query: database connection required\<close>; in both cases \<open>errored\<close> is
  set and the loop goes on with the next rule, nothing being called. When the group has a
  database configured and connections are disabled, \<open>checkSQL\<close> returns the error
  \<open>database: connections disabled via command line flag\<close> before it looks at any query:
  nothing is printed for any query/rule pair.
\<close>

theorem missing_database_reported_disabled_fatal:
  "(sql_database s = None \<longrightarrow> connect w c s = Inr (None, None))
   \<and> (Rules c name = Some rule \<and> NeedsPrepare rule \<longrightarrow>
        check_rule w c s None expl i query name (st, errored, evalMap) =
          Continue (Fprintf st (diag query name @
            '': error preparing query: database connection required'' @ newline), True, evalMap))
   \<and> (Rules c name = Some rule \<and> \<not> NeedsPrepare rule \<and> Program rule = Some prg \<and>
        NeedsExplain rule \<and> evalMap ''postgresql'' = None \<and> evalMap ''mysql'' = None \<longrightarrow>
        check_rule w c s prep None i query name (st, errored, evalMap) =
          Continue (Fprintf st (diag query name @
            '': error explaining query: database connection required'' @ newline), True, evalMap))
   \<and> (sql_database s = Some uri \<and> NoDatabase c \<and> parse w s = (out, Some res) \<longrightarrow>
        checkSQL w c s st =
          (Error ''database: connections disabled via command line flag'',
           st\<lparr>Stderr := Stderr st @ out\<rparr>))"
  by (simp add: connect_def check_rule_def prepare_step_def explain_step_def checkSQL_def)

theorem missing_database_reported_disabled_fatal_witness:
  "connect example_world example_checker (nodb_group EngineSQLite [RuleDbPrepare, ''cost'']) = Inr (None, None)
   \<and> check_rules example_world example_checker (nodb_group EngineSQLite [RuleDbPrepare, ''cost''])
        None None 0 example_query [RuleDbPrepare, ''cost'']
        (init_state, False, new_evalMap example_query (vetConfig example_settings))
      = Continue (\<lparr>Stderr =
          [''query.sql: GetUser: sqlc/db-prepare: error preparing query: database connection required'' @ newline,
           ''query.sql: GetUser: cost: error explaining query: database connection required'' @ newline],
          trace = []\<rparr>, True, new_evalMap example_query (vetConfig example_settings))
   \<and> checkSQL (example_world\<lparr>parse := parsed [example_query]\<rparr>)
        (example_checker\<lparr>NoDatabase := True\<rparr>) (db_group EngineMySQL [RuleDbPrepare]) init_state
      = (Error ''database: connections disabled via command line flag'', init_state)"
proof -
  let ?s = "nodb_group EngineSQLite [RuleDbPrepare, ''cost'']"
  let ?em = "new_evalMap example_query (vetConfig example_settings)"
  let ?w = "example_world\<lparr>parse := parsed [example_query]\<rparr>"
  let ?c = "example_checker\<lparr>NoDatabase := True\<rparr>"
  let ?g = "db_group EngineMySQL [RuleDbPrepare]"
  note th = missing_database_reported_disabled_fatal
  have a: "connect example_world example_checker ?s = Inr (None, None)"
    using th [where s = "?s" and w = example_world and c = example_checker]
    by (simp add: nodb_group_def)
  have b: "check_rule example_world example_checker ?s None None 0 example_query RuleDbPrepare
            (init_state, False, ?em) =
          Continue (Fprintf init_state (diag example_query RuleDbPrepare @
            '': error preparing query: database connection required'' @ newline), True, ?em)"
    using th [where s = "?s" and w = example_world and c = example_checker
        and name = RuleDbPrepare and rule = builtin_rule]
    by (simp add: ex_checker)
  have c: "check_rule example_world example_checker ?s None None 0 example_query ''cost''
            (st, True, ?em) =
          Continue (Fprintf st (diag example_query ''cost'' @
            '': error explaining query: database connection required'' @ newline), True, ?em)" for st
    using th [where s = "?s" and w = example_world and c = example_checker
        and name = "''cost''" and rule = "false_rule True"
        and prg = "\<lambda>evalMap. Inr (VBool False)" and evalMap = "?em"]
    by (simp add: ex_checker new_evalMap_def)
  have d: "checkSQL ?w ?c ?g init_state =
          (Error ''database: connections disabled via command line flag'',
           init_state\<lparr>Stderr := Stderr init_state @ []\<rparr>)"
    using th [where s = "?g" and uri = "''dsn''" and c = "?c" and w = "?w" and out = "[]"
        and res = "\<lparr>pr_queries = [example_query], pr_settings = example_settings\<rparr>"]
    by (simp add: db_group_def example_checker_def parsed_def example_world_def)
  show ?thesis
    using a b c d
    by (simp add: Fprintf_def diag_def init_state_def example_query_def RuleDbPrepare_def)
qed

text \<open>
  Claim C6, as stated, has a per-pair \<open>database connection required\<close> line and the next
  rule processed when connections are disabled. The group below has a database, the flag
  is set, and its first rule needs preparation: \<open>checkSQL\<close> returns the flag's error,
  prints nothing and evaluates no rule.
\<close>

theorem disabled_connections_abort_group:
  "checkSQL (example_world\<lparr>parse := parsed [example_query]\<rparr>)
      (example_checker\<lparr>NoDatabase := True\<rparr>) (db_group EnginePostgreSQL [RuleDbPrepare, ''always''])
      init_state
   = (Error ''database: connections disabled via command line flag'', init_state)
   \<and> map_option NeedsPrepare (Rules (example_checker\<lparr>NoDatabase := True\<rparr>) RuleDbPrepare) = Some True"
  by (simp add: run_defs step_defs example_defs)

text \<open>
  Claim C8, as the code has it. With a database connection, the built-in rule
  \<open>sqlc/db-prepare\<close> on a query whose statement is not preparable prints exactly one line,
  \<open><filename>: <query>: sqlc/db-prepare: error preparing query: query type is unpreparable\<close>,
  sets \<open>errored\<close> and goes on with the next rule; the calls made so far are unchanged, so
  neither \<open>Prepare\<close> nor \<open>Explain\<close> is called. This only happens under Postgres, for a
  statement that is not a DELETE, INSERT, SELECT or UPDATE.
\<close>

theorem unpreparable_reported_once:
  assumes "connect w c s = Inr (Some p, expl)"
    and "Rules c RuleDbPrepare = Some builtin_rule"
    and "\<not> prepareable s (query_raw_stmt query)"
  shows "check_rule w c s (Some p) expl i query RuleDbPrepare (st, errored, evalMap) =
           Continue (st\<lparr>Stderr := Stderr st @
               [query_filename query @ '': '' @ query_name query @ '': '' @ RuleDbPrepare @
                '': error preparing query: query type is unpreparable'' @ newline]\<rparr>,
             True, evalMap)
         \<and> sql_engine s = EnginePostgreSQL
         \<and> query_raw_stmt query \<notin> {DeleteStmt, InsertStmt, SelectStmt, UpdateStmt}"
proof -
  have "check_rule w c s (Some p) expl i query RuleDbPrepare (st, errored, evalMap) =
           Continue (st\<lparr>Stderr := Stderr st @
               [query_filename query @ '': '' @ query_name query @ '': '' @ RuleDbPrepare @
                '': error preparing query: query type is unpreparable'' @ newline]\<rparr>,
             True, evalMap)"
    using assms(2,3)
    by (simp add: check_rule_def prepare_step_def builtin_rule_def Fprintf_def diag_def
          del: prepareable.simps)
  moreover have "sql_engine s = EnginePostgreSQL
         \<and> query_raw_stmt query \<notin> {DeleteStmt, InsertStmt, SelectStmt, UpdateStmt}"
    using assms(3) connect_engine [OF assms(1)] unfolding prepareable_iff by auto
  ultimately show ?thesis by blast
qed

theorem unpreparable_reported_once_witness:
  "check_rule example_world example_checker (db_group EnginePostgreSQL [RuleDbPrepare])
     (Some Preparer_pgxConn) (Some Explainer_pgxConn) 0 ddl_query RuleDbPrepare
     (init_state, False, new_evalMap ddl_query (vetConfig example_settings)) =
   Continue (\<lparr>Stderr = [''ddl.sql: CreateUsers: sqlc/db-prepare: error preparing query: query type is unpreparable'' @ newline],
              trace = []\<rparr>,
             True, new_evalMap ddl_query (vetConfig example_settings))"
proof -
  have k: "connect example_world example_checker (db_group EnginePostgreSQL [RuleDbPrepare]) =
             Inr (Some Preparer_pgxConn, Some Explainer_pgxConn)"
    by (simp add: connect_def db_group_def example_world_def example_checker_def)
  have r: "Rules example_checker RuleDbPrepare = Some builtin_rule"
    by (simp add: ex_checker)
  have u: "\<not> prepareable (db_group EnginePostgreSQL [RuleDbPrepare]) (query_raw_stmt ddl_query)"
    by (simp add: db_group_def ddl_query_def)
  show ?thesis
    using unpreparable_reported_once [OF k r u, where i = 0 and st = init_state
        and errored = False and evalMap = "new_evalMap ddl_query (vetConfig example_settings)"]
    by (simp add: ddl_query_def init_state_def RuleDbPrepare_def)
qed

text \<open>
  Claim C8, as stated, gives the message \<open>query type is unpreparable\<close> for every
  unpreparable statement. In the run below the group has no database: the check for the
  connection comes first, and the line printed for the CREATE TABLE statement says
  \<open>database connection required\<close>.
\<close>

theorem unpreparable_without_database:
  "Vet (example_world\<lparr>parse := parsed [ddl_query]\<rparr>) example_cel False
       \<lparr>conf_rules = [], conf_sql = [nodb_group EnginePostgreSQL [RuleDbPrepare]]\<rparr> init_state
   = (ErrFailedChecks,
      \<lparr>Stderr = [''ddl.sql: CreateUsers: sqlc/db-prepare: error preparing query: database connection required'' @ newline],
       trace = []\<rparr>)
   \<and> \<not> prepareable (nodb_group EnginePostgreSQL [RuleDbPrepare]) (query_raw_stmt ddl_query)"
  by (simp add: run_defs step_defs example_defs)


section \<open>How the loops end\<close>

text \<open>The loops over rule names and over queries stop at the first iteration that
  returns; a skipped query changes nothing; once \<open>errored\<close> is set, \<open>Vet\<close> returns
  \<open>ErrFailedChecks\<close> unless a later group panics.\<close>

lemma check_rules_append:
  "check_rules w c s prep expl i query (xs @ ys) v =
     (case check_rules w c s prep expl i query xs v of
        Return r st \<Rightarrow> Return r st
      | Continue v' \<Rightarrow> check_rules w c s prep expl i query ys v')"
  by (induction xs arbitrary: v) (auto split: flow.splits)

lemma check_queries_append:
  "check_queries w c s prep expl cfg i (xs @ ys) v =
     (case check_queries w c s prep expl cfg i xs v of
        Return r st \<Rightarrow> Return r st
      | Continue v' \<Rightarrow> check_queries w c s prep expl cfg (i + length xs) ys v')"
  by (induction xs arbitrary: i v) (auto split: flow.splits)

lemma check_queries_disabled:
  "list_all disabled qs \<Longrightarrow> check_queries w c s prep expl cfg i qs v = Continue v"
  by (induction qs arbitrary: i) auto

lemma check_groups_errored:
  "fst (check_groups w c ss st True) = ErrFailedChecks \<or>
   (\<exists>m. fst (check_groups w c ss st True) = Panic m)"
proof (induction ss arbitrary: st)
  case Nil
  then show ?case by simp
next
  case (Cons s ss)
  obtain r st' where k: "checkSQL w c s st = (r, st')" by (cases "checkSQL w c s st")
  show ?case using Cons.IH k by (cases r) auto
qed

lemma check_groups_fatal:
  assumes "checkSQL w c s st = (Error msg, st')"
  shows "check_groups w c (s # ss) st errored = check_groups w c ss (Fprintf st' (msg @ newline)) True
    \<and> (fst (check_groups w c (s # ss) st errored) = ErrFailedChecks \<or>
        (\<exists>m. fst (check_groups w c (s # ss) st errored) = Panic m))"
  using assms check_groups_errored [of w c ss "Fprintf st' (msg @ newline)"] by simp

lemma eval_step_non_bool:
  assumes "prg evalMap = Inr v" and "\<forall>b. v \<noteq> VBool b"
  shows "eval_step prg query name rule st errored evalMap =
    Return (Error (''expression returned non-bool value: '' @ fmt_v v))
           (call st (ProgramEval (query_name query) name))"
proof (cases v)
  case (VBool b)
  with assms(2) show ?thesis by blast
qed (use assms(1) in \<open>simp_all add: eval_step_def\<close>)

lemma checkSQL_abort_at:
  assumes "parse w s = (out, Some res)"
    and "connect w c s = Inr (prep, expl)"
    and "pr_queries res = qs1 @ query # qs2"
    and "check_queries w c s prep expl (vetConfig (pr_settings res)) 0 qs1
           (st\<lparr>Stderr := Stderr st @ out\<rparr>, False) = Continue (st1, e1)"
    and "\<not> disabled query"
    and "sql_rules s = ns1 @ name # ns2"
    and "check_rules w c s prep expl (length qs1) query ns1
           (st1, e1, new_evalMap query (vetConfig (pr_settings res))) = Continue v"
    and "check_rule w c s prep expl (length qs1) query name v = Return r st'"
  shows "checkSQL w c s st = (r, st')"
  using assms
  by (simp add: checkSQL_def check_queries_append check_rules_append)

text \<open>
  Claim C2, as the code has it. When the program of a rule evaluates to a value that is
  not a bool on some query (the queries before it having been checked without a return,
  the rules before it likewise), \<open>checkSQL\<close> returns at that point with the error
  \<open>expression returned non-bool value: ...\<close>: no further rule or query of that group is
  evaluated. \<open>Vet\<close> prints the error once, sets \<open>errored\<close> and goes on with the remaining
  groups; what it returns in the end is \<open>ErrFailedChecks\<close>, the signal of ordinary failed
  checks (or the panic of a later group).
\<close>

theorem non_bool_aborts_group_only:
  assumes "parse w s = (out, Some res)"
    and "connect w c s = Inr (prep, expl)"
    and "pr_queries res = qs1 @ query # qs2"
    and "check_queries w c s prep expl (vetConfig (pr_settings res)) 0 qs1
           (st\<lparr>Stderr := Stderr st @ out\<rparr>, False) = Continue (st1, e1)"
    and "\<not> disabled query"
    and "sql_rules s = ns1 @ name # ns2"
    and "check_rules w c s prep expl (length qs1) query ns1
           (st1, e1, new_evalMap query (vetConfig (pr_settings res))) = Continue (st2, e2, em2)"
    and "Rules c name = Some rule"
    and "\<not> NeedsPrepare rule"
    and "Program rule = Some prg"
    and "explain_step w expl query name rule st2 em2 = Continue (st3, em3, False)"
    and "prg em3 = Inr v"
    and "\<forall>b. v \<noteq> VBool b"
  shows "checkSQL w c s st =
           (Error (''expression returned non-bool value: '' @ fmt_v v),
            call st3 (ProgramEval (query_name query) name))
    \<and> check_groups w c (s # ss) st errored =
        check_groups w c ss
          (Fprintf (call st3 (ProgramEval (query_name query) name))
             (''expression returned non-bool value: '' @ fmt_v v @ newline)) True
    \<and> (fst (check_groups w c (s # ss) st errored) = ErrFailedChecks \<or>
        (\<exists>m. fst (check_groups w c (s # ss) st errored) = Panic m))"
proof -
  let ?msg = "''expression returned non-bool value: '' @ fmt_v v"
  let ?st = "call st3 (ProgramEval (query_name query) name)"
  have "check_rule w c s prep expl (length qs1) query name (st2, e2, em2) =
          Return (Error ?msg) ?st"
    using assms(8-11)
      eval_step_non_bool [where prg = prg and evalMap = em3 and v = v, OF assms(12,13)]
    by (simp add: check_rule_def)
  from checkSQL_abort_at [OF assms(1-7) this]
  have k: "checkSQL w c s st = (Error ?msg, ?st)" .
  from k check_groups_fatal [OF k, of ss errored] show ?thesis by simp
qed

theorem non_bool_aborts_group_only_witness:
  "checkSQL (example_world\<lparr>parse := parsed [skipped_query, example_query]\<rparr>) example_checker
     (nodb_group EnginePostgreSQL [''always'', ''bad'', ''cost'']) init_state =
   (Error ''expression returned non-bool value: SELECT id FROM users WHERE id = $1'',
    \<lparr>Stderr = [''query.sql: GetUser: always'' @ newline],
     trace = [ProgramEval ''GetUser'' ''always'', ProgramEval ''GetUser'' ''bad'']\<rparr>)"
proof -
  let ?w = "example_world\<lparr>parse := parsed [skipped_query, example_query]\<rparr>"
  let ?s = "nodb_group EnginePostgreSQL [''always'', ''bad'', ''cost'']"
  let ?res = "\<lparr>pr_queries = [skipped_query, example_query], pr_settings = example_settings\<rparr>"
  let ?em = "new_evalMap example_query (vetConfig (pr_settings ?res))"
  let ?st2 = "\<lparr>Stderr = [''query.sql: GetUser: always'' @ newline],
               trace = [ProgramEval ''GetUser'' ''always'']\<rparr>"
  let ?bad = "\<lparr>Program = Some query_sql_program, Message = [],
               NeedsPrepare = False, NeedsExplain = False\<rparr>"
  have h1: "parse ?w ?s = ([], Some ?res)"
    by (simp add: example_world_def parsed_def)
  have h2: "connect ?w example_checker ?s = Inr (None, None)"
    by (simp add: connect_def nodb_group_def)
  have h3: "pr_queries ?res = [skipped_query] @ example_query # []"
    by simp
  have h4: "check_queries ?w example_checker ?s None None (vetConfig (pr_settings ?res)) 0
      [skipped_query] (init_state\<lparr>Stderr := Stderr init_state @ []\<rparr>, False) =
      Continue (init_state, False)"
    by (simp add: disabled_def skipped_query_def init_state_def)
  have h5: "\<not> disabled example_query"
    by (simp add: disabled_def example_query_def)
  have h6: "sql_rules ?s = [''always''] @ ''bad'' # [''cost'']"
    by (simp add: nodb_group_def)
  have h7: "check_rules ?w example_checker ?s None None (length [skipped_query]) example_query
      [''always''] (init_state, False, ?em) = Continue (?st2, True, ?em)"
    by (simp add: step_defs example_checker_def init_state_def example_query_def)
  have h8: "Rules example_checker ''bad'' = Some ?bad"
    by (simp add: example_checker_def)
  have h9: "\<not> NeedsPrepare ?bad" and h10: "Program ?bad = Some query_sql_program"
    by simp_all
  have h11: "explain_step ?w None example_query ''bad'' ?bad ?st2 ?em = Continue (?st2, ?em, False)"
    by (simp add: explain_step_def)
  have h12: "query_sql_program ?em = Inr (VString (query_text example_query))"
    by (simp add: query_sql_program_def new_evalMap_def vetQuery_def)
  have h13: "\<forall>b. VString (query_text example_query) \<noteq> VBool b"
    by simp
  show ?thesis
    using non_bool_aborts_group_only [OF h1 h2 h3 h4 h5 h6 h7 h8 h9 h10 h11 h12 h13]
    by (simp add: fmt_v_def call_def example_query_def)
qed

text \<open>
  Claim C2, as stated, has the whole run abort at the first non-bool value, with a signal
  distinct from failed checks. In the run below the rule \<open>bad\<close> of the first group
  evaluates to a string; the query of the second group is evaluated all the same and its
  violation is printed; \<open>Vet\<close> returns \<open>ErrFailedChecks\<close>, and the exit status is the one
  of a run in which a rule merely tripped.
\<close>

theorem non_bool_run_goes_on:
  "Vet (example_world\<lparr>parse := parsed [example_query]\<rparr>) example_cel False
     \<lparr>conf_rules = [\<lparr>rc_name = ''bad'', rc_rule = ''query.sql'', rc_msg = []\<rparr>,
                    \<lparr>rc_name = ''always'', rc_rule = ''true'', rc_msg = []\<rparr>],
      conf_sql = [nodb_group EnginePostgreSQL [''bad''],
                  nodb_group EnginePostgreSQL [''always'']]\<rparr> init_state
   = (ErrFailedChecks,
      \<lparr>Stderr = [''expression returned non-bool value: SELECT id FROM users WHERE id = $1'' @ newline,
                 ''query.sql: GetUser: always'' @ newline],
       trace = [ProgramEval ''GetUser'' ''bad'', ProgramEval ''GetUser'' ''always'']\<rparr>)
   \<and> fst (RunE (example_world\<lparr>parse := parsed [example_query]\<rparr>) example_cel False
     \<lparr>conf_rules = [\<lparr>rc_name = ''bad'', rc_rule = ''query.sql'', rc_msg = []\<rparr>,
                    \<lparr>rc_name = ''always'', rc_rule = ''true'', rc_msg = []\<rparr>],
      conf_sql = [nodb_group EnginePostgreSQL [''bad''],
                  nodb_group EnginePostgreSQL [''always'']]\<rparr> init_state)
     = fst (RunE (example_world\<lparr>parse := parsed [example_query]\<rparr>) example_cel False
     \<lparr>conf_rules = [\<lparr>rc_name = ''always'', rc_rule = ''true'', rc_msg = []\<rparr>],
      conf_sql = [nodb_group EnginePostgreSQL [''always'']]\<rparr> init_state)"
  by (simp add: run_defs step_defs example_defs fmt_v_def)

text \<open>
  Claim C3, as the code has it. The rule names of a group are looked up when the loop
  reaches them. For a group whose rule list names an unknown rule, \<open>checkSQL\<close> returns the
  error \<open>type-check error: a rule with the name '...' does not exist\<close> at the first query
  that is not skipped: the rules listed before the unknown name have been applied to
  that query by then (\<open>st2\<close> holds what they printed and called), no rule after it and no
  later query is evaluated. When the unknown name is the first of the list, nothing has
  been printed or called for the group. \<open>Vet\<close> prints the error, sets \<open>errored\<close> and goes
  on with the remaining groups, returning \<open>ErrFailedChecks\<close> in the end (or the panic of
  a later group).
\<close>

theorem unknown_rule_aborts_group_lazily:
  assumes "parse w s = (out, Some res)"
    and "connect w c s = Inr (prep, expl)"
    and "pr_queries res = qs1 @ query # qs2"
    and "list_all disabled qs1"
    and "\<not> disabled query"
    and "sql_rules s = ns1 @ name # ns2"
    and "check_rules w c s prep expl (length qs1) query ns1
           (st\<lparr>Stderr := Stderr st @ out\<rparr>, False,
            new_evalMap query (vetConfig (pr_settings res))) = Continue (st2, e2, em2)"
    and "Rules c name = None"
  shows "checkSQL w c s st =
           (Error (''type-check error: a rule with the name '' @ quote @ name @ quote @
                   '' does not exist''), st2)
    \<and> (ns1 = [] \<longrightarrow> st2 = st\<lparr>Stderr := Stderr st @ out\<rparr>)
    \<and> check_groups w c (s # ss) st errored =
        check_groups w c ss
          (Fprintf st2 (''type-check error: a rule with the name '' @ quote @ name @ quote @
                        '' does not exist'' @ newline)) True
    \<and> (fst (check_groups w c (s # ss) st errored) = ErrFailedChecks \<or>
        (\<exists>m. fst (check_groups w c (s # ss) st errored) = Panic m))"
proof -
  let ?msg = "''type-check error: a rule with the name '' @ quote @ name @ quote @
              '' does not exist''"
  have r: "check_rule w c s prep expl (length qs1) query name (st2, e2, em2) =
          Return (Error ?msg) st2"
    using assms(8) by (simp add: check_rule_def)
  have q: "check_queries w c s prep expl (vetConfig (pr_settings res)) 0 qs1
           (st\<lparr>Stderr := Stderr st @ out\<rparr>, False) =
           Continue (st\<lparr>Stderr := Stderr st @ out\<rparr>, False)"
    using assms(4) by (rule check_queries_disabled)
  from checkSQL_abort_at [OF assms(1-3) q assms(5-7) r]
  have k: "checkSQL w c s st = (Error ?msg, st2)" .
  have e: "ns1 = [] \<longrightarrow> st2 = st\<lparr>Stderr := Stderr st @ out\<rparr>"
    using assms(7) by auto
  from k e check_groups_fatal [OF k, of ss errored] show ?thesis by simp
qed

theorem unknown_rule_aborts_group_lazily_witness:
  "checkSQL (example_world\<lparr>parse := parsed [skipped_query, example_query, many_query]\<rparr>)
     example_checker (nodb_group EnginePostgreSQL [''always'', ''missing'', ''bad'']) init_state =
   (Error (''type-check error: a rule with the name '' @ quote @ ''missing'' @ quote @
           '' does not exist''),
    \<lparr>Stderr = [''query.sql: GetUser: always'' @ newline],
     trace = [ProgramEval ''GetUser'' ''always'']\<rparr>)
   \<and> checkSQL (example_world\<lparr>parse := parsed [skipped_query, example_query, many_query]\<rparr>)
     example_checker (nodb_group EnginePostgreSQL [''missing'', ''always'']) init_state =
   (Error (''type-check error: a rule with the name '' @ quote @ ''missing'' @ quote @
           '' does not exist''), init_state)"
proof -
  let ?w = "example_world\<lparr>parse := parsed [skipped_query, example_query, many_query]\<rparr>"
  let ?s = "nodb_group EnginePostgreSQL [''always'', ''missing'', ''bad'']"
  let ?t = "nodb_group EnginePostgreSQL [''missing'', ''always'']"
  let ?res = "\<lparr>pr_queries = [skipped_query, example_query, many_query],
               pr_settings = example_settings\<rparr>"
  let ?em = "new_evalMap example_query (vetConfig (pr_settings ?res))"
  let ?st2 = "\<lparr>Stderr = [''query.sql: GetUser: always'' @ newline],
               trace = [ProgramEval ''GetUser'' ''always'']\<rparr>"
  have h1: "parse ?w s = ([], Some ?res)" for s
    by (simp add: example_world_def parsed_def)
  have h2: "connect ?w example_checker (nodb_group EnginePostgreSQL ns) = Inr (None, None)" for ns
    by (simp add: connect_def nodb_group_def)
  have h3: "pr_queries ?res = [skipped_query] @ example_query # [many_query]"
    by simp
  have h4: "list_all disabled [skipped_query]"
    by (simp add: disabled_def skipped_query_def)
  have h5: "\<not> disabled example_query"
    by (simp add: disabled_def example_query_def)
  have h6: "sql_rules ?s = [''always''] @ ''missing'' # [''bad'']"
    and h6': "sql_rules ?t = [] @ ''missing'' # [''always'']"
    by (simp_all add: nodb_group_def)
  have h7: "check_rules ?w example_checker ?s None None (length [skipped_query]) example_query
      [''always''] (init_state\<lparr>Stderr := Stderr init_state @ []\<rparr>, False, ?em) =
      Continue (?st2, True, ?em)"
    by (simp add: step_defs example_checker_def init_state_def example_query_def)
  have h7': "check_rules ?w example_checker ?t None None (length [skipped_query]) example_query
      [] (init_state\<lparr>Stderr := Stderr init_state @ []\<rparr>, False, ?em) =
      Continue (init_state, False, ?em)"
    by (simp add: init_state_def)
  have h8: "Rules example_checker ''missing'' = None"
    by (simp add: example_checker_def initial_rules_def RuleDbPrepare_def)
  show ?thesis
    using unknown_rule_aborts_group_lazily [OF h1 h2 h3 h4 h5 h6 h7 h8]
      unknown_rule_aborts_group_lazily [OF h1 h2 h3 h4 h5 h6' h7' h8]
    by simp
qed

text \<open>
  Claim C3, as stated, has no diagnostic and no evaluation before the abort, and a fatal
  error as the result. In the run below the group lists the rule \<open>always\<close> before the
  unknown name \<open>missing\<close>: the program of \<open>always\<close> is evaluated and its violation printed
  before the error, and \<open>Vet\<close> returns \<open>ErrFailedChecks\<close>.
\<close>

theorem unknown_rule_after_evaluation:
  "Vet (example_world\<lparr>parse := parsed [example_query]\<rparr>) example_cel False
     \<lparr>conf_rules = [\<lparr>rc_name = ''always'', rc_rule = ''true'', rc_msg = []\<rparr>],
      conf_sql = [nodb_group EnginePostgreSQL [''always'', ''missing'']]\<rparr> init_state
   = (ErrFailedChecks,
      \<lparr>Stderr = [''query.sql: GetUser: always'' @ newline,
                 ''type-check error: a rule with the name '' @ quote @ ''missing'' @ quote @
                 '' does not exist'' @ newline],
       trace = [ProgramEval ''GetUser'' ''always'']\<rparr>)"
  by (simp add: run_defs step_defs example_defs)


section \<open>Explain output is kept for the query\<close>

text \<open>Only \<open>Explain\<close> asks for a plan, and it does so once per call. With explain output
  bound in \<open>evalMap\<close>, an iteration of the rule loop leaves \<open>evalMap\<close> as it is and asks
  for no plan.\<close>

lemma explain_calls_append [simp]:
  "explain_calls (xs @ ys) = explain_calls xs + explain_calls ys"
  by (simp add: explain_calls_def)



lemma explain_step_bound:
  "evalMap ''postgresql'' \<noteq> None \<or> evalMap ''mysql'' \<noteq> None \<Longrightarrow>
     explain_step w expl query name rule st evalMap = Continue (st, evalMap, False)"
  by (auto simp: explain_step_def)



lemma Explain_once:
  "Explain w e st query args = (r, st') \<Longrightarrow>
     explain_calls (trace st') = Suc (explain_calls (trace st))"
  by (cases e)
     (auto simp: pgxConn_Explain_def mysqlExplainer_Explain_def call_def explain_calls_def
        Let_def split: sum.splits list.splits option.splits if_splits)

lemma explain_step_binds:
  assumes "NeedsExplain rule"
    and "explain_step w expl query name rule st evalMap = Continue (st', evalMap', False)"
  shows "(evalMap' ''postgresql'' \<noteq> None \<or> evalMap' ''mysql'' \<noteq> None)
    \<and> explain_calls (trace st') \<le> Suc (explain_calls (trace st))"
proof (cases "evalMap ''postgresql'' \<noteq> None \<or> evalMap ''mysql'' \<noteq> None")
  case True
  with assms(2) explain_step_bound [OF True, of w expl query name rule st] show ?thesis
    by auto
next
  case False
  show ?thesis
  proof (cases expl)
    case None
    with assms False show ?thesis by (simp add: explain_step_def)
  next
    case (Some e)
    obtain r st1 where x: "Explain w e st (query_text query) (query_params query) = (r, st1)"
      by (cases "Explain w e st (query_text query) (query_params query)")
    from assms False Some x Explain_once [OF x] show ?thesis
      by (cases r) (auto simp: explain_step_def)
  qed
qed


lemma explain_succeeded_only_explain:
  "\<not> is_explain_call ev \<Longrightarrow> \<not> explain_succeeded w tr ev"
  by (cases ev) auto














end
